theory Spec2Isabelle
  imports Main "HOL-Library.Word"
begin

section \<open>Errors\<close>

text \<open>
  Go errors as values. The first constructors stand for the operating system's error
  numbers that the sources test with \<open>os.IsExist\<close> and \<open>os.IsNotExist\<close>;
  \<open>Wrap\<close> is \<open>errors.Wrap(err, msg)\<close>; the last group are the messages
  the allocator builds with \<open>fmt.Errorf\<close>.
\<close>

datatype kind =
    Invalid | Bool | Int' | Int8 | Int16 | Int32 | Int64
  | Uint | Uint8 | Uint16 | Uint32 | Uint64 | Uintptr
  | Float32 | Float64 | Complex64 | Complex128
  | Array | Chan | Func | Interface | Map | Ptr | Slice | String | Struct | UnsafePointer

datatype error =
    ENOENT | EEXIST | EACCES | EINVAL | ENOTDIR
  | Wrap error string
  | InvalidObject
  | ExceedsMaxObjectSize
  | TooLargeForBuffer
  | SlicesNotSupported
  | FieldError string error
  | UnsupportedType kind
  | InvalidMemRegionFlags

text \<open>\<open>os.IsExist(err)\<close> and \<open>os.IsNotExist(err)\<close>; both are false of \<open>nil\<close>.\<close>

definition os_IsExist :: "error option \<Rightarrow> bool" where
  "os_IsExist err = (err = Some EEXIST)"

definition os_IsNotExist :: "error option \<Rightarrow> bool" where
  "os_IsNotExist err = (err = Some ENOENT)"


section \<open>The operating system behind the file-backed objects\<close>

text \<open>
  \<open>os.TempDir\<close>, \<open>os.Mkdir\<close> and \<open>os.Remove\<close> belong to Go's library and to
  the operating system, not to these sources. A system is given by its temporary
  directory and by what the two calls answer and how they change the state of the system.
  Nothing is assumed about the answers: which error a call gives for which path is the
  system's own matter.
\<close>

record 's opsys =
  TempDir :: string
  Mkdir :: "'s \<Rightarrow> string \<Rightarrow> nat \<Rightarrow> error option \<times> 's"
  Remove :: "'s \<Rightarrow> string \<Rightarrow> error option \<times> 's"

section \<open>Package shm: memory objects emulated by regular files\<close>

text \<open>The octal literal \<open>0644\<close> of the source.\<close>

definition perm_0644 :: nat where
  "perm_0644 = 6 * 64 + 4 * 8 + 4"

text \<open>The functions return a path and an error, as in Go; the path of an error return is empty.\<close>

definition sharedDirName :: "'s opsys \<Rightarrow> 's \<Rightarrow> (string \<times> error option) \<times> 's" where
  "sharedDirName sys s =
     (let rootPath = TempDir sys @ ''/go-ipc'' in
      case Mkdir sys s rootPath perm_0644 of
        (err, s') \<Rightarrow>
          if err \<noteq> None \<and> \<not> os_IsExist err then (('''', err), s')
          else ((rootPath, None), s'))"

definition shmName :: "'s opsys \<Rightarrow> 's \<Rightarrow> string \<Rightarrow> (string \<times> error option) \<times> 's" where
  "shmName sys s name =
     (case sharedDirName sys s of
        ((path, err), s') \<Rightarrow>
          if err \<noteq> None then (('''', err), s')
          else ((path @ ''/'' @ name, None), s'))"

definition destroyMemoryObject :: "'s opsys \<Rightarrow> 's \<Rightarrow> string \<Rightarrow> error option \<times> 's" where
  "destroyMemoryObject sys s name =
     (case shmName sys s name of
        ((path, err), s') \<Rightarrow>
          if err \<noteq> None then (err, s')
          else
            (case Remove sys s' path of
               (err', s'') \<Rightarrow> if os_IsNotExist err' then (None, s'') else (err', s'')))"

text \<open>
  A memory object holds an open file. What \<open>file.Stat()\<close> reports for the handle now
  (an error, or the file's information with its size) is the state behind the handle.
\<close>

record FileInfo =
  fi_name :: string
  fi_size :: int

record os_File =
  file_name :: string
  Stat :: "error + FileInfo"

record memoryObject =
  mo_file :: os_File

definition memoryObject_Size :: "memoryObject \<Rightarrow> int" where
  "memoryObject_Size obj =
     (case Stat (mo_file obj) of
        Inl err \<Rightarrow> 0
      | Inr fileInfo \<Rightarrow> fi_size fileInfo)"

section \<open>Package ipc: fifo names\<close>

text \<open>\<open>strings.Contains(name, "/")\<close> is membership of the one character.\<close>

definition fifoPath :: "string \<Rightarrow> string" where
  "fifoPath name = (if CHR ''/'' \<in> set name then name else ''/tmp/'' @ name)"

definition DestroyFifo :: "'s opsys \<Rightarrow> 's \<Rightarrow> string \<Rightarrow> error option \<times> 's" where
  "DestroyFifo sys s name =
     (case Remove sys s (fifoPath name) of
        (err, s') \<Rightarrow> if os_IsNotExist err then (None, s') else (err, s'))"

section \<open>Package sync: the futex-based and the semaphore-based mutex\<close>

text \<open>
  The constructors call into packages that are not part of these sources (\<open>shm\<close>,
  \<open>mmf\<close>, the semaphore and the lightweight mutex). Their results are inputs of the
  model, and every call that acts on the operating system or on the shared word is
  recorded, in order, in a trace.
\<close>

type_synonym obj = nat
type_synonym region = nat
type_synonym semaphore = nat
type_synonym ptr = nat

text \<open>The memory-region modes of package \<open>mmf\<close>; an integer that is none of them is \<open>MEM_OTHER\<close>.\<close>

datatype mem_mode =
  MEM_READ_ONLY | MEM_READ_PRIVATE | MEM_READWRITE | MEM_COPY_ON_WRITE | MEM_OTHER int

text \<open>
  \<open>mmf.NewMemoryRegion\<close> returns a region and an error. The deferred function of
  \<open>NewFutexMutex\<close> tests the region against \<open>nil\<close> on the error path, so a failed
  call may or may not have handed a region back.
\<close>

datatype region_result = RegionOk region | RegionErr "region option" error

record sync_deps =
  ensureOpenFlags :: "int \<Rightarrow> error option"
  lwmCellSize :: int
  NewMemoryObjectSize :: "string \<Rightarrow> int \<Rightarrow> nat \<Rightarrow> int \<Rightarrow> error + (obj \<times> bool)"
  NewMemoryRegion :: "obj \<Rightarrow> mem_mode \<Rightarrow> int \<Rightarrow> int \<Rightarrow> region_result"
  ByteSliceData :: "region \<Rightarrow> ptr"
  createWritableRegion :: "string \<Rightarrow> int \<Rightarrow> nat \<Rightarrow> int \<Rightarrow> error + (region \<times> bool)"
  NewSemaphore :: "string \<Rightarrow> int \<Rightarrow> nat \<Rightarrow> int \<Rightarrow> error + semaphore"
  DestroyMemoryObject :: "string \<Rightarrow> error option"
  DestroySemaphore :: "string \<Rightarrow> error option"

datatype event =
    Call_NewMemoryObjectSize string int nat int
  | Call_NewMemoryRegion obj mem_mode int int
  | Obj_Close obj
  | Obj_Destroy obj
  | Region_Close region
  | Lwm_init ptr
  | Call_createWritableRegion string int nat int
  | Call_NewSemaphore string int nat int
  | Call_DestroyMemoryObject string
  | Call_DestroySemaphore string

text \<open>
  Modelled from the spec: \<open>mutexSharedStateName\<close> is not in the sources. The spec gives
  the derived name of a mutex's shared state as the user's name followed by the variant's
  suffix tag.
\<close>

definition mutexSharedStateName :: "string \<Rightarrow> string \<Rightarrow> string" where
  "mutexSharedStateName name typ = name @ typ"

text \<open>
  Modelled from the spec: the lightweight mutex is not in the sources. It is a shared
  word, here the address of the region's first byte, with a waiter; its \<open>init\<close> writes
  0 to the word and is the event \<open>Lwm_init\<close> of the trace.
\<close>

datatype waiter = Futex ptr | SemaWaiter semaphore

record lwMutex =
  lwm_ptr :: ptr
  lwm_waiter :: waiter

definition newLightweightMutex :: "ptr \<Rightarrow> waiter \<Rightarrow> lwMutex" where
  "newLightweightMutex p w = \<lparr>lwm_ptr = p, lwm_waiter = w\<rparr>"

record FutexMutex =
  fm_lwm :: lwMutex
  fm_region :: region
  fm_name :: string

text \<open>
  The deferred function of \<open>NewFutexMutex\<close>: it runs when the constructor returns, with
  the values \<open>resultErr\<close>, \<open>region\<close> and \<open>created\<close> have then.
\<close>

definition NewFutexMutex_deferred ::
  "obj \<Rightarrow> bool \<Rightarrow> error option \<Rightarrow> region option \<Rightarrow> event list" where
  "NewFutexMutex_deferred obj created resultErr region =
     [Obj_Close obj] @
     (if resultErr = None then []
      else (case region of Some r \<Rightarrow> [Region_Close r] | None \<Rightarrow> []) @
           (if created then [Obj_Destroy obj] else []))"

definition NewFutexMutex ::
  "sync_deps \<Rightarrow> string \<Rightarrow> int \<Rightarrow> nat \<Rightarrow> (error + FutexMutex) \<times> event list" where
  "NewFutexMutex d name flag perm =
     (case ensureOpenFlags d flag of
        Some err \<Rightarrow> (Inl err, [])
      | None \<Rightarrow>
          (let shared = mutexSharedStateName name ''f'';
               tr1 = [Call_NewMemoryObjectSize shared flag perm (lwmCellSize d)]
           in case NewMemoryObjectSize d shared flag perm (lwmCellSize d) of
                Inl resultErr \<Rightarrow> (Inl (Wrap resultErr ''failed to create shm object''), tr1)
              | Inr (obj, created) \<Rightarrow>
                  (let tr2 = tr1 @ [Call_NewMemoryRegion obj MEM_READWRITE 0 (lwmCellSize d)]
                   in case NewMemoryRegion d obj MEM_READWRITE 0 (lwmCellSize d) of
                        RegionErr region resultErr \<Rightarrow>
                          (Inl (Wrap resultErr ''failed to create shm region''),
                           tr2 @ NewFutexMutex_deferred obj created (Some resultErr) region)
                      | RegionOk region \<Rightarrow>
                          (let lwm = newLightweightMutex (ByteSliceData d region)
                                       (Futex (ByteSliceData d region))
                           in (Inr \<lparr>fm_lwm = lwm, fm_region = region, fm_name = name\<rparr>,
                               tr2 @ (if created then [Lwm_init (lwm_ptr lwm)] else []) @
                               NewFutexMutex_deferred obj created None (Some region))))))"


record SemaMutex =
  sm_s :: semaphore
  sm_region :: region
  sm_name :: string
  sm_lwm :: lwMutex

definition NewSemaMutex ::
  "sync_deps \<Rightarrow> string \<Rightarrow> int \<Rightarrow> nat \<Rightarrow> (error + SemaMutex) \<times> event list" where
  "NewSemaMutex d name flag perm =
     (case ensureOpenFlags d flag of
        Some err \<Rightarrow> (Inl err, [])
      | None \<Rightarrow>
          (let shared = mutexSharedStateName name ''s'';
               tr1 = [Call_createWritableRegion shared flag perm (lwmCellSize d)]
           in case createWritableRegion d shared flag perm (lwmCellSize d) of
                Inl err \<Rightarrow> (Inl (Wrap err ''failed to create shared state''), tr1)
              | Inr (region, created) \<Rightarrow>
                  (let tr2 = tr1 @ [Call_NewSemaphore name flag perm 1]
                   in case NewSemaphore d name flag perm 1 of
                        Inl err \<Rightarrow>
                          (Inl (Wrap err ''failed to create a semaphore''),
                           tr2 @ [Region_Close region] @
                           (if created
                            then [Call_DestroyMemoryObject (mutexSharedStateName name ''s'')]
                            else []))
                      | Inr s \<Rightarrow>
                          (let result = \<lparr>sm_s = s, sm_region = region, sm_name = name,
                                 sm_lwm = newLightweightMutex (ByteSliceData d region)
                                            (SemaWaiter s)\<rparr>
                           in (Inr result,
                               tr2 @ (if created then [Lwm_init (lwm_ptr (sm_lwm result))]
                                      else []))))))"


text \<open>
  The pointers on which \<open>init\<close> was invoked, the object handles that were closed, and
  the names handed to the memory-object layer.
\<close>

fun closed_objs :: "event list \<Rightarrow> obj list" where
  "closed_objs [] = []"
| "closed_objs (Obj_Close obj # tr) = obj # closed_objs tr"
| "closed_objs (e # tr) = closed_objs tr"

fun inits :: "event list \<Rightarrow> ptr list" where
  "inits [] = []"
| "inits (Lwm_init p # tr) = p # inits tr"
| "inits (e # tr) = inits tr"

fun object_names :: "event list \<Rightarrow> string list" where
  "object_names [] = []"
| "object_names (Call_NewMemoryObjectSize n f p s # tr) = n # object_names tr"
| "object_names (Call_createWritableRegion n f p s # tr) = n # object_names tr"
| "object_names (Call_DestroyMemoryObject n # tr) = n # object_names tr"
| "object_names (e # tr) = object_names tr"

section \<open>Windows: the named mutex of package ipc and of package sync\<close>

text \<open>
  The open modes of package \<open>ipc\<close>; an integer that is none of the three is
  \<open>O_OTHER\<close>. \<open>openMutex\<close> and \<open>createMutex\<close> wrap the Windows calls and return a
  handle together with an error; their results are inputs of the model and each call is
  recorded.
\<close>

datatype open_mode = O_OPEN_ONLY | O_CREATE_ONLY | O_OPEN_OR_CREATE | O_OTHER int

type_synonym handle = nat

record mutex_api =
  openMutex :: "string \<Rightarrow> handle \<times> error option"
  createMutex :: "string \<Rightarrow> handle \<times> error option"

datatype page_prot = PROT_0 | PAGE_READONLY | PAGE_READWRITE | PAGE_WRITECOPY

datatype map_access = ACCESS_0 | FILE_MAP_READ | FILE_MAP_WRITE | FILE_MAP_COPY

datatype win_event =
    Call_openMutex string
  | Call_createMutex string
  | Call_CloseHandle handle
  | Call_CreateFileMapping nat page_prot
  | Call_MapViewOfFile handle map_access int int int

record mutexImpl =
  mi_handle :: handle

text \<open>\<open>newMutexImpl\<close> of package \<open>ipc\<close> (the file of the Windows memory objects).\<close>

definition ipc_newMutexImpl ::
  "mutex_api \<Rightarrow> string \<Rightarrow> open_mode \<Rightarrow> nat \<Rightarrow> (error + mutexImpl) \<times> win_event list" where
  "ipc_newMutexImpl api name mode perm =
     (case (case mode of
              O_OPEN_ONLY \<Rightarrow> (0, None, [])
            | O_CREATE_ONLY \<Rightarrow>
                (case createMutex api name of (h, e) \<Rightarrow> (h, e, [Call_createMutex name]))
            | O_OPEN_OR_CREATE \<Rightarrow> (0, None, [])
            | O_OTHER i \<Rightarrow> (0, None, [])) of
        (handle, err, tr) \<Rightarrow>
          (case err of
             Some e \<Rightarrow> (Inl e, tr)
           | None \<Rightarrow> (Inr \<lparr>mi_handle = handle\<rparr>, tr)))"

text \<open>\<open>newMutexImpl\<close> of package \<open>sync\<close>.\<close>

definition sync_newMutexImpl ::
  "mutex_api \<Rightarrow> string \<Rightarrow> open_mode \<Rightarrow> nat \<Rightarrow> (error + mutexImpl) \<times> win_event list" where
  "sync_newMutexImpl api name mode perm =
     (case (case mode of
              O_OPEN_ONLY \<Rightarrow>
                (case openMutex api name of (h, e) \<Rightarrow> (h, e, [Call_openMutex name]))
            | O_CREATE_ONLY \<Rightarrow>
                (case createMutex api name of
                   (h, e) \<Rightarrow>
                     (h, e, [Call_createMutex name] @
                            (if h \<noteq> 0 \<and> os_IsExist e then [Call_CloseHandle h] else [])))
            | O_OPEN_OR_CREATE \<Rightarrow>
                (case createMutex api name of
                   (h, e) \<Rightarrow>
                     (h, if h \<noteq> 0 \<and> os_IsExist e then None else e, [Call_createMutex name]))
            | O_OTHER i \<Rightarrow> (0, None, [])) of
        (handle, err, tr) \<Rightarrow>
          (case err of
             Some e \<Rightarrow> (Inl e, tr)
           | None \<Rightarrow> (Inr \<lparr>mi_handle = handle\<rparr>, tr)))"

section \<open>Windows: the memory region of package ipc\<close>

text \<open>
  A byte slice is its base address, length and capacity. A region keeps the slice over
  the whole mapped view, the requested size and the page offset.
\<close>

record byteslice =
  bs_base :: int
  bs_len :: int
  bs_cap :: int

record memoryRegionImpl =
  mr_data :: byteslice
  mr_size :: int
  mr_pageOffset :: int

text \<open>
  The Windows calls and \<open>calcValidOffset\<close>, which is not in the sources, are inputs of
  the model. \<open>windows.MapViewOfFile(handle, access, offsetHigh, offsetLow, length)\<close>
  takes the high 32 bits of the file offset before the low 32 bits, then the number of
  bytes to map, and returns the base address of the view. The event
  \<open>Call_MapViewOfFile\<close> holds the arguments in the order of the call.
\<close>

record win_api =
  CreateFileMapping :: "nat \<Rightarrow> page_prot \<Rightarrow> error + handle"
  MapViewOfFile :: "handle \<Rightarrow> map_access \<Rightarrow> int \<Rightarrow> int \<Rightarrow> int \<Rightarrow> error + int"
  calcValidOffset :: "int \<Rightarrow> int"

definition memProtAndFlagsFromMode :: "mem_mode \<Rightarrow> page_prot \<times> map_access \<times> error option" where
  "memProtAndFlagsFromMode mode =
     (case mode of
        MEM_READ_ONLY \<Rightarrow> (PAGE_READONLY, FILE_MAP_READ, None)
      | MEM_READ_PRIVATE \<Rightarrow> (PAGE_READONLY, FILE_MAP_READ, None)
      | MEM_READWRITE \<Rightarrow> (PAGE_READWRITE, FILE_MAP_WRITE, None)
      | MEM_COPY_ON_WRITE \<Rightarrow> (PAGE_WRITECOPY, FILE_MAP_COPY, None)
      | MEM_OTHER i \<Rightarrow> (PROT_0, ACCESS_0, Some InvalidMemRegionFlags))"

definition byteSliceFromUintptr :: "int \<Rightarrow> int \<Rightarrow> int \<Rightarrow> byteslice" where
  "byteSliceFromUintptr addr lenght capacity =
     \<lparr>bs_base = addr, bs_len = lenght, bs_cap = capacity\<rparr>"

text \<open>
  \<open>uint32(x)\<close> keeps the low 32 bits, \<open>x >> 32\<close> on a signed 64-bit value is the
  floor division by \<open>2 ^ 32\<close>, and \<open>uintptr(x)\<close> keeps the low 64 bits. The
  source hands \<open>lowOffset\<close> to the call before \<open>highOffset\<close>.
\<close>

definition newMemoryRegionImpl ::
  "win_api \<Rightarrow> nat \<Rightarrow> mem_mode \<Rightarrow> int \<Rightarrow> int \<Rightarrow> (error + memoryRegionImpl) \<times> win_event list" where
  "newMemoryRegionImpl api fd mode offset size' =
     (case memProtAndFlagsFromMode mode of
        (prot, flags, Some err) \<Rightarrow> (Inl err, [])
      | (prot, flags, None) \<Rightarrow>
          (case CreateFileMapping api fd prot of
             Inl err \<Rightarrow> (Inl err, [Call_CreateFileMapping fd prot])
           | Inr handle \<Rightarrow>
               (let pageOffset = calcValidOffset api offset;
                    lowOffset = pageOffset mod 2 ^ 32;
                    highOffset = (pageOffset div 2 ^ 32) mod 2 ^ 32;
                    bytes = (size' + pageOffset) mod 2 ^ 64;
                    tr = [Call_CreateFileMapping fd prot,
                          Call_MapViewOfFile handle flags lowOffset highOffset bytes,
                          Call_CloseHandle handle]
                in case MapViewOfFile api handle flags lowOffset highOffset bytes of
                     Inl err \<Rightarrow> (Inl err, tr)
                   | Inr addr \<Rightarrow>
                       (let sz = size' + pageOffset
                        in (Inr \<lparr>mr_data = byteSliceFromUintptr addr sz sz,
                                 mr_size = size', mr_pageOffset = pageOffset\<rparr>, tr)))))"

text \<open>
  \<open>impl.data[impl.pageOffset:]\<close>: the slice expression panics (here \<open>None\<close>) unless
  the low bound lies between 0 and the length. The new slice starts \<open>low\<close> bytes
  further, except that Go leaves the base where it is when no capacity remains.
\<close>

definition memoryRegionImpl_Data :: "memoryRegionImpl \<Rightarrow> byteslice option" where
  "memoryRegionImpl_Data impl =
     (let d = mr_data impl; low = mr_pageOffset impl
      in if 0 \<le> low \<and> low \<le> bs_len d
         then Some \<lparr>bs_base = (if bs_cap d - low = 0 then bs_base d else bs_base d + low),
                    bs_len = bs_len d - low, bs_cap = bs_cap d - low\<rparr>
         else None)"

definition memoryRegionImpl_Size :: "memoryRegionImpl \<Rightarrow> int" where
  "memoryRegionImpl_Size impl = mr_size impl"

section \<open>Package allocator: copying a plain object into a byte slice\<close>

text \<open>
  A Go type, as far as \<open>checkType\<close> looks into it: an array, a slice and a struct
  have element or field types; every other type is its kind alone (\<open>Scalar\<close>, for
  the kinds other than \<open>Array\<close>, \<open>Slice\<close> and \<open>Struct\<close>).
\<close>

datatype gotype =
    Scalar kind
  | ArrayOf nat gotype
  | SliceOf gotype
  | StructOf "(string \<times> gotype) list"

fun Kind :: "gotype \<Rightarrow> kind" where
  "Kind (Scalar k) = k"
| "Kind (ArrayOf n t) = Array"
| "Kind (SliceOf t) = Slice"
| "Kind (StructOf fs) = Struct"

text \<open>The numeric value of a \<open>reflect.Kind\<close>, in the order of its declaration.\<close>

fun kind_num :: "kind \<Rightarrow> nat" where
  "kind_num Invalid = 0"
| "kind_num Bool = 1"
| "kind_num Int' = 2"
| "kind_num Int8 = 3"
| "kind_num Int16 = 4"
| "kind_num Int32 = 5"
| "kind_num Int64 = 6"
| "kind_num Uint = 7"
| "kind_num Uint8 = 8"
| "kind_num Uint16 = 9"
| "kind_num Uint32 = 10"
| "kind_num Uint64 = 11"
| "kind_num Uintptr = 12"
| "kind_num Float32 = 13"
| "kind_num Float64 = 14"
| "kind_num Complex64 = 15"
| "kind_num Complex128 = 16"
| "kind_num Array = 17"
| "kind_num Chan = 18"
| "kind_num Func = 19"
| "kind_num Interface = 20"
| "kind_num Map = 21"
| "kind_num Ptr = 22"
| "kind_num Slice = 23"
| "kind_num String = 24"
| "kind_num Struct = 25"
| "kind_num UnsafePointer = 26"

definition maxObjectSize :: nat where
  "maxObjectSize = 128 * 1024 * 1024"

definition checkNumericType :: "kind \<Rightarrow> error option" where
  "checkNumericType k =
     (if kind_num Bool \<le> kind_num k \<and> kind_num k \<le> kind_num Complex128 then None
      else if k = UnsafePointer then None
      else Some (UnsupportedType k))"

text \<open>The loop over the fields of a struct is \<open>checkFields\<close>.\<close>

fun checkType :: "gotype \<Rightarrow> nat \<Rightarrow> error option"
  and checkFields :: "(string \<times> gotype) list \<Rightarrow> nat \<Rightarrow> error option" where
  "checkType (ArrayOf n t) depth = checkType t (depth + 1)"
| "checkType (SliceOf t) depth =
     (if depth \<noteq> 0 then Some SlicesNotSupported else checkType t (depth + 1))"
| "checkType (StructOf fs) depth = checkFields fs depth"
| "checkType (Scalar k) depth = checkNumericType k"
| "checkFields [] depth = None"
| "checkFields (field # fs) depth =
     (case checkType (snd field) (depth + 1) of
        Some err \<Rightarrow> Some (FieldError (fst field) err)
      | None \<Rightarrow> checkFields fs depth)"

text \<open>
  The memory of the process: the byte at an address, or \<open>None\<close> where nothing is
  mapped, as at address 0. A word is 8 bytes, the low byte first.
\<close>

type_synonym byte = "8 word"

type_synonym process_memory = "nat \<Rightarrow> byte option"

definition read_bytes :: "process_memory \<Rightarrow> nat \<Rightarrow> nat \<Rightarrow> byte list option" where
  "read_bytes mem addr n =
     (if list_all (\<lambda>i. mem (addr + i) \<noteq> None) [0..<n]
      then Some (map (\<lambda>i. the (mem (addr + i))) [0..<n])
      else None)"

definition word_of_bytes :: "byte list \<Rightarrow> nat" where
  "word_of_bytes bs = foldr (\<lambda>b w. unat b + 256 * w) bs 0"

definition read_word :: "process_memory \<Rightarrow> nat \<Rightarrow> nat option" where
  "read_word mem addr = map_option word_of_bytes (read_bytes mem addr 8)"

text \<open>
  A type whose values an interface holds in its data word itself rather than behind a
  pointer: the pointer-shaped types, and an array of one element or a struct of one
  field of such a type.
\<close>

fun direct_iface :: "gotype \<Rightarrow> bool" where
  "direct_iface (Scalar k) = (k \<in> {Ptr, UnsafePointer, Chan, Map, Func})"
| "direct_iface (ArrayOf n t) = (n = 1 \<and> direct_iface t)"
| "direct_iface (SliceOf t) = False"
| "direct_iface (StructOf [field]) = direct_iface (snd field)"
| "direct_iface (StructOf fs) = False"

text \<open>
  A \<open>reflect.Value\<close>: the zero Value (of a nil interface, and the \<open>Elem\<close> of a nil
  pointer), a Go pointer with the Value it points to, or a value that is no Go pointer,
  with its type, its length (read for a slice only) and the data word of the interface
  that \<open>Value.Interface()\<close> yields. For a type of \<open>direct_iface\<close> the data word is
  the value itself, a pointer; for every other type it is the address of the value's bytes,
  for a slice the address of its header, whose first word is the address of the data.
  \<open>tsize\<close> is \<open>Type.Size()\<close>. A call that does not return, by a panic or by a
  memory fault, is \<open>Panicked\<close>.
\<close>

datatype rvalue =
    ZeroValue
  | PtrValue rvalue
  | DataValue gotype nat nat

datatype 'a outcome = Panicked | Returned 'a

fun IsValid :: "rvalue \<Rightarrow> bool" where
  "IsValid ZeroValue = False"
| "IsValid v = True"

text \<open>\<open>for value.Kind() == reflect.Ptr { value = value.Elem() }\<close>\<close>

fun deref :: "rvalue \<Rightarrow> rvalue" where
  "deref (PtrValue v) = deref v"
| "deref v = v"

text \<open>\<open>Value.Type()\<close> panics on the zero Value.\<close>

fun Type :: "rvalue \<Rightarrow> gotype option" where
  "Type ZeroValue = None"
| "Type (PtrValue v) = Some (Scalar Ptr)"
| "Type (DataValue t n w) = Some t"

fun objectSize :: "(gotype \<Rightarrow> nat) \<Rightarrow> rvalue \<Rightarrow> nat option" where
  "objectSize tsize ZeroValue = None"
| "objectSize tsize (PtrValue v) = Some (tsize (Scalar Ptr))"
| "objectSize tsize (DataValue (SliceOf t) n w) = Some (n * tsize t)"
| "objectSize tsize (DataValue t n w) = Some (tsize t)"

text \<open>
  \<open>valueObjectAddress\<close> reads the data word of the interface; \<open>objectAddress\<close>
  replaces it, for a slice, by the \<open>Data\<close> word of the header it points to. The two are
  modelled for the values \<open>Alloc\<close> hands them, which are no Go pointers.
\<close>

fun valueObjectAddress :: "rvalue \<Rightarrow> nat option" where
  "valueObjectAddress (DataValue t n w) = Some w"
| "valueObjectAddress v = None"

fun objectAddress :: "process_memory \<Rightarrow> rvalue \<Rightarrow> nat option" where
  "objectAddress mem (DataValue (SliceOf t) n w) = read_word mem w"
| "objectAddress mem v = valueObjectAddress v"

text \<open>
  The builtin \<open>copy(memory, objectData)\<close> reads the first
  \<open>min(len(memory), size)\<close> bytes at the address and writes them over the start of
  \<open>memory\<close>; reading where nothing is mapped is a fault.
\<close>

definition copyObjectData ::
  "(gotype \<Rightarrow> nat) \<Rightarrow> process_memory \<Rightarrow> rvalue \<Rightarrow> byte list \<Rightarrow> byte list outcome" where
  "copyObjectData tsize mem v memory =
     (case objectAddress mem v of
        None \<Rightarrow> Panicked
      | Some addr \<Rightarrow>
          (case objectSize tsize v of
             None \<Rightarrow> Panicked
           | Some size' \<Rightarrow>
               (let n = min (length memory) size'
                in case read_bytes mem addr n of
                     None \<Rightarrow> Panicked
                   | Some objectData \<Rightarrow> Returned (objectData @ drop n memory))))"

definition Alloc ::
  "(gotype \<Rightarrow> nat) \<Rightarrow> process_memory \<Rightarrow> byte list \<Rightarrow> rvalue
     \<Rightarrow> (error option \<times> byte list) outcome" where
  "Alloc tsize mem memory object =
     (if \<not> IsValid object then Returned (Some InvalidObject, memory)
      else
        (let v = deref object in
         case objectSize tsize v of
           None \<Rightarrow> Panicked
         | Some size' \<Rightarrow>
             if size' > maxObjectSize then Returned (Some ExceedsMaxObjectSize, memory)
             else if size' > length memory then Returned (Some TooLargeForBuffer, memory)
             else
               (case Type v of
                  None \<Rightarrow> Panicked
                | Some t \<Rightarrow>
                    (case checkType t 0 of
                       Some err \<Rightarrow> Returned (Some err, memory)
                     | None \<Rightarrow>
                         (case copyObjectData tsize mem v memory of
                            Panicked \<Rightarrow> Panicked
                          | Returned memory' \<Rightarrow> Returned (None, memory'))))))"

text \<open>
  The claim's words for a type without references: its leaves are bool, numeric, complex
  or \<open>unsafe.Pointer\<close>; arrays and structs of such types are allowed; a slice is
  allowed at the top level only.
\<close>

definition plain_leaf :: "kind \<Rightarrow> bool" where
  "plain_leaf k =
     (k \<in> {Bool, Int', Int8, Int16, Int32, Int64, Uint, Uint8, Uint16, Uint32, Uint64, Uintptr,
            Float32, Float64, Complex64, Complex128, UnsafePointer})"

fun plain :: "gotype \<Rightarrow> bool" and plain_fields :: "(string \<times> gotype) list \<Rightarrow> bool" where
  "plain (Scalar k) = plain_leaf k"
| "plain (ArrayOf n t) = plain t"
| "plain (SliceOf t) = False"
| "plain (StructOf fs) = plain_fields fs"
| "plain_fields [] = True"
| "plain_fields (field # fs) = (plain (snd field) \<and> plain_fields fs)"

fun reference_free :: "gotype \<Rightarrow> bool" where
  "reference_free (SliceOf t) = plain t"
| "reference_free t = plain t"

text \<open>
  The claim's words for what is copied: the object's own bytes. For a value that is
  itself a pointer (a type of \<open>direct_iface\<close>) these are the bytes of the pointer,
  the low byte first; for a slice they are the bytes of its data; for every other value
  they are the bytes at its address.
\<close>

definition bytes_of_word :: "nat \<Rightarrow> nat \<Rightarrow> byte list" where
  "bytes_of_word n w = map (\<lambda>i. of_nat (w div 256 ^ i)) [0..<n]"

fun own_bytes :: "(gotype \<Rightarrow> nat) \<Rightarrow> process_memory \<Rightarrow> rvalue \<Rightarrow> byte list option" where
  "own_bytes tsize mem (DataValue (SliceOf t) n w) =
     (case read_word mem w of
        None \<Rightarrow> None
      | Some data \<Rightarrow> read_bytes mem data (n * tsize t))"
| "own_bytes tsize mem (DataValue t n w) =
     (if direct_iface t then Some (bytes_of_word (tsize t) w) else read_bytes mem w (tsize t))"
| "own_bytes tsize mem v = None"

section \<open>What a mapping request exposes\<close>

text \<open>
  The view a mapping request yields: the file offset at which the mapped view starts, the
  number of bytes mapped, and where the slice of \<open>Data()\<close> starts (in bytes past the
  base of the view) and how long it is.
\<close>

record view =
  v_file_offset :: int
  v_bytes :: int
  v_data_start :: int
  v_data_len :: int

fun map_requests :: "win_event list \<Rightarrow> (int \<times> int \<times> int) list" where
  "map_requests [] = []"
| "map_requests (Call_MapViewOfFile h a offsetHigh offsetLow n # tr) =
     (offsetHigh, offsetLow, n) # map_requests tr"
| "map_requests (e # tr) = map_requests tr"

definition mapped_view :: "win_api \<Rightarrow> nat \<Rightarrow> mem_mode \<Rightarrow> int \<Rightarrow> int \<Rightarrow> view option" where
  "mapped_view api fd mode offset size' =
     (case newMemoryRegionImpl api fd mode offset size' of
        (Inl err, tr) \<Rightarrow> None
      | (Inr impl, tr) \<Rightarrow>
          (case (map_requests tr, memoryRegionImpl_Data impl) of
             ([(offsetHigh, offsetLow, n)], Some d) \<Rightarrow>
               Some \<lparr>v_file_offset = offsetHigh * 2 ^ 32 + offsetLow, v_bytes = n,
                     v_data_start = bs_base d - bs_base (mr_data impl),
                     v_data_len = bs_len d\<rparr>
           | other \<Rightarrow> None))"

text \<open>
  The claim's words: the offset is aligned down to the page size, the length plus the
  alignment remainder is mapped, and the slice starts the remainder past the base and has
  the requested length.
\<close>

definition page_aligned :: "int \<Rightarrow> int \<Rightarrow> int" where
  "page_aligned pageSize offset = offset - offset mod pageSize"

definition claimed_view :: "int \<Rightarrow> int \<Rightarrow> int \<Rightarrow> view" where
  "claimed_view pageSize offset size' =
     \<lparr>v_file_offset = page_aligned pageSize offset,
      v_bytes = size' + (offset - page_aligned pageSize offset),
      v_data_start = offset - page_aligned pageSize offset,
      v_data_len = size'\<rparr>"

section \<open>Concrete inputs\<close>

text \<open>
  A system whose \<open>/tmp\<close> this process may not change and which holds a regular file
  \<open>notes.txt\<close> and no directory \<open>go-ipc\<close>, as far as the calls below ask it:
  it refuses to create a directory, it answers that \<open>notes.txt\<close> is not a directory
  for the name under it, and it finds nothing under the other names.
\<close>

definition tmp_locked :: "unit opsys" where
  "tmp_locked =
     \<lparr>TempDir = ''/tmp'',
      Mkdir = (\<lambda>s path perm. (Some EACCES, s)),
      Remove = (\<lambda>s path.
         (if path = ''/tmp/notes.txt/fifo'' then Some ENOTDIR else Some ENOENT, s))\<rparr>"

text \<open>
  A system whose \<open>/tmp\<close> may be changed and holds nothing yet. Its state is the list
  of the directories made in it, each with the permission bits asked for.
\<close>

definition tmp_fresh :: "(string \<times> nat) list opsys" where
  "tmp_fresh =
     \<lparr>TempDir = ''/tmp'',
      Mkdir = (\<lambda>s path perm.
         if path \<in> set (map fst s) then (Some EEXIST, s) else (None, (path, perm) # s)),
      Remove = (\<lambda>s path.
         if path \<in> set (map fst s) then (None, filter (\<lambda>d. fst d \<noteq> path) s)
         else (Some ENOENT, s))\<rparr>"

text \<open>
  The other packages answering a constructor: the memory object is number 1 and was or was
  not created by the call, the region maps as given, and the semaphore opens as given.
\<close>

definition example_deps :: "bool \<Rightarrow> region_result \<Rightarrow> error + semaphore \<Rightarrow> sync_deps" where
  "example_deps created rr sem =
     \<lparr>ensureOpenFlags = (\<lambda>flag. None),
      lwmCellSize = 4,
      NewMemoryObjectSize = (\<lambda>name flag perm sz. Inr (1, created)),
      NewMemoryRegion = (\<lambda>obj mode offset sz. rr),
      ByteSliceData = (\<lambda>region. 4096 * region),
      createWritableRegion = (\<lambda>name flag perm sz. Inr (2, created)),
      NewSemaphore = (\<lambda>name flag perm initial. sem),
      DestroyMemoryObject = (\<lambda>name. None),
      DestroySemaphore = (\<lambda>name. None)\<rparr>"

text \<open>A Windows on which no mutex of the name exists yet.\<close>

definition example_mutex_api :: mutex_api where
  "example_mutex_api =
     \<lparr>openMutex = (\<lambda>name. (0, Some ENOENT)), createMutex = (\<lambda>name. (5, None))\<rparr>"

text \<open>A Windows that maps every view at address 65536, with \<open>calcValidOffset\<close> answering \<open>c\<close>.\<close>

definition example_win_api :: "int \<Rightarrow> win_api" where
  "example_win_api c =
     \<lparr>CreateFileMapping = (\<lambda>fd prot. Inr 7),
      MapViewOfFile = (\<lambda>h access offsetHigh offsetLow n. Inr 65536),
      calcValidOffset = (\<lambda>offset. c)\<rparr>"

text \<open>
  A process memory of 64-bit words. At address 4096 lie the eight bytes 1 to 8 of a
  variable \<open>x\<close>; at address 8192 lies a slice header whose data is at 4096 and whose
  length and capacity are 3; nothing else is mapped. \<open>example_tsize\<close> gives the sizes
  of the types used: 8 bytes for \<open>unsafe.Pointer\<close>, 2 for \<open>uint16\<close>.
\<close>

definition example_memory :: process_memory where
  "example_memory addr =
     (if 4096 \<le> addr \<and> addr < 4104 then Some (of_nat (addr - 4095))
      else if 8192 \<le> addr \<and> addr < 8216
        then Some (if addr = 8193 then 16 else if addr = 8200 \<or> addr = 8208 then 3 else 0)
      else None)"

definition example_tsize :: "gotype \<Rightarrow> nat" where
  "example_tsize t =
     (if t = Scalar UnsafePointer then 8 else if t = Scalar Uint16 then 2 else 1)"

section \<open>Properties\<close>

subsection \<open>The constructors, case by case\<close>

lemma inits_append [simp]: "inits (xs @ ys) = inits xs @ inits ys"
  by (induction xs rule: inits.induct) auto

lemma object_names_append [simp]: "object_names (xs @ ys) = object_names xs @ object_names ys"
  by (induction xs rule: object_names.induct) auto

lemma inits_deferred [simp]: "inits (NewFutexMutex_deferred obj created e r) = []"
  by (auto simp: NewFutexMutex_deferred_def split: option.splits)

lemma object_names_deferred [simp]: "object_names (NewFutexMutex_deferred obj created e r) = []"
  by (auto simp: NewFutexMutex_deferred_def split: option.splits)


lemma NewFutexMutex_flags:
  "ensureOpenFlags d flag = Some err \<Longrightarrow> NewFutexMutex d name flag perm = (Inl err, [])"
  by (simp add: NewFutexMutex_def)

lemma NewFutexMutex_noobj:
  "ensureOpenFlags d flag = None \<Longrightarrow>
   NewMemoryObjectSize d (mutexSharedStateName name ''f'') flag perm (lwmCellSize d) = Inl re \<Longrightarrow>
   NewFutexMutex d name flag perm =
     (Inl (Wrap re ''failed to create shm object''),
      [Call_NewMemoryObjectSize (mutexSharedStateName name ''f'') flag perm (lwmCellSize d)])"
  by (simp add: NewFutexMutex_def Let_def)

lemma NewFutexMutex_noregion:
  "ensureOpenFlags d flag = None \<Longrightarrow>
   NewMemoryObjectSize d (mutexSharedStateName name ''f'') flag perm (lwmCellSize d)
     = Inr (obj, created) \<Longrightarrow>
   NewMemoryRegion d obj MEM_READWRITE 0 (lwmCellSize d) = RegionErr region re \<Longrightarrow>
   NewFutexMutex d name flag perm =
     (Inl (Wrap re ''failed to create shm region''),
      [Call_NewMemoryObjectSize (mutexSharedStateName name ''f'') flag perm (lwmCellSize d),
       Call_NewMemoryRegion obj MEM_READWRITE 0 (lwmCellSize d)] @
      NewFutexMutex_deferred obj created (Some re) region)"
  by (simp add: NewFutexMutex_def Let_def)

lemma NewFutexMutex_ok:
  "ensureOpenFlags d flag = None \<Longrightarrow>
   NewMemoryObjectSize d (mutexSharedStateName name ''f'') flag perm (lwmCellSize d)
     = Inr (obj, created) \<Longrightarrow>
   NewMemoryRegion d obj MEM_READWRITE 0 (lwmCellSize d) = RegionOk region \<Longrightarrow>
   NewFutexMutex d name flag perm =
     (Inr \<lparr>fm_lwm = \<lparr>lwm_ptr = ByteSliceData d region,
                      lwm_waiter = Futex (ByteSliceData d region)\<rparr>,
           fm_region = region, fm_name = name\<rparr>,
      [Call_NewMemoryObjectSize (mutexSharedStateName name ''f'') flag perm (lwmCellSize d),
       Call_NewMemoryRegion obj MEM_READWRITE 0 (lwmCellSize d)] @
      (if created then [Lwm_init (ByteSliceData d region)] else []) @ [Obj_Close obj])"
  by (simp add: NewFutexMutex_def Let_def newLightweightMutex_def NewFutexMutex_deferred_def)

lemma NewSemaMutex_flags:
  "ensureOpenFlags d flag = Some err \<Longrightarrow> NewSemaMutex d name flag perm = (Inl err, [])"
  by (simp add: NewSemaMutex_def)

lemma NewSemaMutex_noregion:
  "ensureOpenFlags d flag = None \<Longrightarrow>
   createWritableRegion d (mutexSharedStateName name ''s'') flag perm (lwmCellSize d) = Inl re \<Longrightarrow>
   NewSemaMutex d name flag perm =
     (Inl (Wrap re ''failed to create shared state''),
      [Call_createWritableRegion (mutexSharedStateName name ''s'') flag perm (lwmCellSize d)])"
  by (simp add: NewSemaMutex_def Let_def)

lemma NewSemaMutex_nosema:
  "ensureOpenFlags d flag = None \<Longrightarrow>
   createWritableRegion d (mutexSharedStateName name ''s'') flag perm (lwmCellSize d)
     = Inr (region, created) \<Longrightarrow>
   NewSemaphore d name flag perm 1 = Inl re \<Longrightarrow>
   NewSemaMutex d name flag perm =
     (Inl (Wrap re ''failed to create a semaphore''),
      [Call_createWritableRegion (mutexSharedStateName name ''s'') flag perm (lwmCellSize d),
       Call_NewSemaphore name flag perm 1, Region_Close region] @
      (if created then [Call_DestroyMemoryObject (mutexSharedStateName name ''s'')] else []))"
  by (simp add: NewSemaMutex_def Let_def)

lemma NewSemaMutex_ok:
  "ensureOpenFlags d flag = None \<Longrightarrow>
   createWritableRegion d (mutexSharedStateName name ''s'') flag perm (lwmCellSize d)
     = Inr (region, created) \<Longrightarrow>
   NewSemaphore d name flag perm 1 = Inr s \<Longrightarrow>
   NewSemaMutex d name flag perm =
     (Inr \<lparr>sm_s = s, sm_region = region, sm_name = name,
           sm_lwm = \<lparr>lwm_ptr = ByteSliceData d region, lwm_waiter = SemaWaiter s\<rparr>\<rparr>,
      [Call_createWritableRegion (mutexSharedStateName name ''s'') flag perm (lwmCellSize d),
       Call_NewSemaphore name flag perm 1] @
      (if created then [Lwm_init (ByteSliceData d region)] else []))"
  by (simp add: NewSemaMutex_def Let_def newLightweightMutex_def)

lemma futex_init:
  "(NewFutexMutex d name flag perm = (Inr m, tr) \<longrightarrow>
      (\<exists>obj created.
          NewMemoryObjectSize d (mutexSharedStateName name ''f'') flag perm (lwmCellSize d)
            = Inr (obj, created) \<and>
          lwm_ptr (fm_lwm m) = ByteSliceData d (fm_region m) \<and>
          inits tr = (if created then [lwm_ptr (fm_lwm m)] else [])))
   \<and> (NewFutexMutex d name flag perm = (Inl e, tr) \<longrightarrow> inits tr = [])"
proof (cases "ensureOpenFlags d flag")
  case (Some err)
  then show ?thesis by (auto simp: NewFutexMutex_flags)
next
  case None
  show ?thesis
  proof (cases "NewMemoryObjectSize d (mutexSharedStateName name ''f'') flag perm (lwmCellSize d)")
    case (Inl re)
    show ?thesis by (auto simp: NewFutexMutex_noobj [OF None Inl])
  next
    case (Inr oc)
    obtain obj created where oc: "oc = (obj, created)" by (cases oc)
    note obj = Inr [unfolded oc]
    show ?thesis
    proof (cases "NewMemoryRegion d obj MEM_READWRITE 0 (lwmCellSize d)")
      case (RegionOk region)
      show ?thesis using obj by (auto simp: NewFutexMutex_ok [OF None obj RegionOk])
    next
      case (RegionErr region re)
      show ?thesis by (auto simp: NewFutexMutex_noregion [OF None obj RegionErr])
    qed
  qed
qed

lemma sema_init:
  "(NewSemaMutex d name flag perm = (Inr sm, tr') \<longrightarrow>
      (\<exists>region created.
          createWritableRegion d (mutexSharedStateName name ''s'') flag perm (lwmCellSize d)
            = Inr (region, created) \<and>
          lwm_ptr (sm_lwm sm) = ByteSliceData d (sm_region sm) \<and>
          inits tr' = (if created then [lwm_ptr (sm_lwm sm)] else [])))
   \<and> (NewSemaMutex d name flag perm = (Inl e', tr') \<longrightarrow> inits tr' = [])"
proof (cases "ensureOpenFlags d flag")
  case (Some err)
  then show ?thesis by (auto simp: NewSemaMutex_flags)
next
  case None
  show ?thesis
  proof (cases "createWritableRegion d (mutexSharedStateName name ''s'') flag perm (lwmCellSize d)")
    case (Inl re)
    show ?thesis by (auto simp: NewSemaMutex_noregion [OF None Inl])
  next
    case (Inr rc)
    obtain region created where rc: "rc = (region, created)" by (cases rc)
    note reg = Inr [unfolded rc]
    show ?thesis
    proof (cases "NewSemaphore d name flag perm 1")
      case (Inl re)
      show ?thesis by (auto simp: NewSemaMutex_nosema [OF None reg Inl])
    next
      case (Inr s)
      show ?thesis using reg by (auto simp: NewSemaMutex_ok [OF None reg Inr])
    qed
  qed
qed

subsection \<open>Who initialises the shared word\<close>

text \<open>
  Claim C1, as the code has it. A constructor that returns a mutex invokes the
  lightweight mutex's \<open>init\<close> exactly when the memory object was created by this call,
  once and on the word at the start of the mutex's own region; an opener does not invoke
  it. A constructor that returns an error never invokes it, also when the call had
  created the object.
\<close>

theorem init_by_successful_creator:
  "(NewFutexMutex d name flag perm = (Inr m, tr) \<longrightarrow>
      (\<exists>obj created.
          NewMemoryObjectSize d (mutexSharedStateName name ''f'') flag perm (lwmCellSize d)
            = Inr (obj, created) \<and>
          lwm_ptr (fm_lwm m) = ByteSliceData d (fm_region m) \<and>
          inits tr = (if created then [lwm_ptr (fm_lwm m)] else [])))
   \<and> (NewFutexMutex d name flag perm = (Inl e, tr) \<longrightarrow> inits tr = [])
   \<and> (NewSemaMutex d name flag perm = (Inr sm, tr') \<longrightarrow>
      (\<exists>region created.
          createWritableRegion d (mutexSharedStateName name ''s'') flag perm (lwmCellSize d)
            = Inr (region, created) \<and>
          lwm_ptr (sm_lwm sm) = ByteSliceData d (sm_region sm) \<and>
          inits tr' = (if created then [lwm_ptr (sm_lwm sm)] else [])))
   \<and> (NewSemaMutex d name flag perm = (Inl e', tr') \<longrightarrow> inits tr' = [])"
  using futex_init [of d name flag perm m tr e] sema_init [of d name flag perm sm tr' e']
  by blast

text \<open>
  The theorem at a creator that succeeds, where \<open>init\<close> is invoked on the word of
  region 2, and at an opener of the semaphore variant, where it is not.
\<close>

theorem init_by_successful_creator_witness:
  "NewFutexMutex (example_deps True (RegionOk 2) (Inr 3)) ''m'' 0 420 =
     (Inr \<lparr>fm_lwm = \<lparr>lwm_ptr = 8192, lwm_waiter = Futex 8192\<rparr>, fm_region = 2, fm_name = ''m''\<rparr>,
      [Call_NewMemoryObjectSize ''mf'' 0 420 4, Call_NewMemoryRegion 1 MEM_READWRITE 0 4,
       Lwm_init 8192, Obj_Close 1])
   \<and> inits [Call_NewMemoryObjectSize ''mf'' 0 420 4, Call_NewMemoryRegion 1 MEM_READWRITE 0 4,
       Lwm_init 8192, Obj_Close 1] = [8192]
   \<and> NewSemaMutex (example_deps False (RegionOk 2) (Inr 3)) ''m'' 0 420 =
     (Inr \<lparr>sm_s = 3, sm_region = 2, sm_name = ''m'',
           sm_lwm = \<lparr>lwm_ptr = 8192, lwm_waiter = SemaWaiter 3\<rparr>\<rparr>,
      [Call_createWritableRegion ''ms'' 0 420 4, Call_NewSemaphore ''m'' 0 420 1])
   \<and> inits [Call_createWritableRegion ''ms'' 0 420 4, Call_NewSemaphore ''m'' 0 420 1] = []"
  using init_by_successful_creator [of "example_deps True (RegionOk 2) (Inr 3)" "''m''" 0 420]
  by (simp add: example_deps_def NewFutexMutex_def NewSemaMutex_def Let_def
      newLightweightMutex_def mutexSharedStateName_def NewFutexMutex_deferred_def)

text \<open>
  The claim as it is written fails at a call that creates the object and then cannot map
  it: the object was created by the call, the constructor returns the mapping error, and
  \<open>init\<close> is not invoked.
\<close>

theorem init_iff_created_counterexample:
  "NewMemoryObjectSize (example_deps True (RegionErr None EACCES) (Inl EACCES))
      (mutexSharedStateName ''m'' ''f'') 0 420
      (lwmCellSize (example_deps True (RegionErr None EACCES) (Inl EACCES))) = Inr (1, True)
   \<and> NewFutexMutex (example_deps True (RegionErr None EACCES) (Inl EACCES)) ''m'' 0 420 =
      (Inl (Wrap EACCES ''failed to create shm region''),
       [Call_NewMemoryObjectSize ''mf'' 0 420 4, Call_NewMemoryRegion 1 MEM_READWRITE 0 4,
        Obj_Close 1, Obj_Destroy 1])
   \<and> inits (snd (NewFutexMutex (example_deps True (RegionErr None EACCES) (Inl EACCES))
               ''m'' 0 420)) = []"
  by (simp add: example_deps_def NewFutexMutex_def Let_def mutexSharedStateName_def
      NewFutexMutex_deferred_def)

subsection \<open>The names of the shared state\<close>






subsection \<open>A constructor that fails\<close>

lemma closed_objs_append [simp]: "closed_objs (xs @ ys) = closed_objs xs @ closed_objs ys"
  by (induction xs rule: closed_objs.induct) auto

lemma closed_objs_deferred [simp]:
  "closed_objs (NewFutexMutex_deferred obj created e r) = [obj]"
  by (auto simp: NewFutexMutex_deferred_def split: option.splits)







subsection \<open>The view of a mapped region\<close>

lemma newMemoryRegionImpl_result:
  "newMemoryRegionImpl api fd mode offset sz = (Inr impl, tr) \<Longrightarrow>
   (\<exists>handle access addr.
      tr = [Call_CreateFileMapping fd (fst (memProtAndFlagsFromMode mode)),
            Call_MapViewOfFile handle access
              (calcValidOffset api offset mod 2 ^ 32)
              ((calcValidOffset api offset div 2 ^ 32) mod 2 ^ 32)
              ((sz + calcValidOffset api offset) mod 2 ^ 64),
            Call_CloseHandle handle] \<and>
      impl = \<lparr>mr_data = \<lparr>bs_base = addr, bs_len = sz + calcValidOffset api offset,
                           bs_cap = sz + calcValidOffset api offset\<rparr>,
              mr_size = sz, mr_pageOffset = calcValidOffset api offset\<rparr>)"
  by (auto simp: newMemoryRegionImpl_def Let_def byteSliceFromUintptr_def
      split: prod.splits option.splits sum.splits)

lemma mapped_view_Some:
  assumes "mapped_view api fd mode offset sz = Some v"
  shows "v_data_start v = (if sz = 0 then 0 else calcValidOffset api offset)
       \<and> v_file_offset v = (calcValidOffset api offset mod 2 ^ 32) * 2 ^ 32
                            + (calcValidOffset api offset div 2 ^ 32) mod 2 ^ 32
       \<and> v_bytes v = (sz + calcValidOffset api offset) mod 2 ^ 64
       \<and> v_data_len v = sz
       \<and> 0 \<le> calcValidOffset api offset"
proof -
  obtain r tr where r: "newMemoryRegionImpl api fd mode offset sz = (r, tr)"
    by (cases "newMemoryRegionImpl api fd mode offset sz")
  show ?thesis
  proof (cases r)
    case (Inl err)
    with assms r show ?thesis by (simp add: mapped_view_def)
  next
    case (Inr impl)
    from newMemoryRegionImpl_result [OF r [unfolded Inr]]
    obtain handle access addr where
      tr: "tr = [Call_CreateFileMapping fd (fst (memProtAndFlagsFromMode mode)),
            Call_MapViewOfFile handle access
              (calcValidOffset api offset mod 2 ^ 32)
              ((calcValidOffset api offset div 2 ^ 32) mod 2 ^ 32)
              ((sz + calcValidOffset api offset) mod 2 ^ 64),
            Call_CloseHandle handle]"
      and impl: "impl = \<lparr>mr_data = \<lparr>bs_base = addr, bs_len = sz + calcValidOffset api offset,
                           bs_cap = sz + calcValidOffset api offset\<rparr>,
              mr_size = sz, mr_pageOffset = calcValidOffset api offset\<rparr>"
      by blast
    from assms show ?thesis
      unfolding mapped_view_def r Inr tr impl
      by (auto simp: memoryRegionImpl_Data_def Let_def split: if_splits)
  qed
qed

lemma swapped_offset_parts:
  fixes c :: int
  assumes "0 \<le> c" "c < 2 ^ 32"
  shows "(c mod 2 ^ 32) * 2 ^ 32 + (c div 2 ^ 32) mod 2 ^ 32 = c * 2 ^ 32"
proof -
  have "c div 2 ^ 32 = 0" using assms by (rule div_pos_pos_trivial)
  moreover have "c mod 2 ^ 32 = c" using assms by (rule mod_pos_pos_trivial)
  ultimately show ?thesis by simp
qed

text \<open>
  Whatever \<open>calcValidOffset\<close> and the Windows calls answer, for pages of at most
  \<open>2 ^ 32\<close> bytes, a size other than 0 and an offset other than 0 and at most
  \<open>2 ^ 32\<close>, the region is never the view the claim describes. Beyond \<open>2 ^ 32\<close>
  the two halves of the offset, handed over in the wrong order, can meet the claim: it
  does so at the offset \<open>2 ^ 32 + 1\<close> when \<open>calcValidOffset\<close> answers 1.
\<close>

lemma mapped_view_never_claimed:
  assumes "offset \<noteq> 0" "offset \<le> 2 ^ 32" "0 < pageSize" "pageSize \<le> 2 ^ 32" "sz \<noteq> 0"
  shows "mapped_view api fd mode offset sz \<noteq> Some (claimed_view pageSize offset sz)"
proof
  assume eq: "mapped_view api fd mode offset sz = Some (claimed_view pageSize offset sz)"
  define c where "c = calcValidOffset api offset"
  from mapped_view_Some [OF eq] assms(5)
  have start: "offset - page_aligned pageSize offset = c"
    and off: "page_aligned pageSize offset
                = (c mod 2 ^ 32) * 2 ^ 32 + (c div 2 ^ 32) mod 2 ^ 32"
    by (simp_all add: claimed_view_def c_def)
  have c: "c = offset mod pageSize" using start by (simp add: page_aligned_def)
  have c0: "0 \<le> c" unfolding c using assms(3) by (rule pos_mod_sign)
  have c1: "c < pageSize" unfolding c using assms(3) by (rule pos_mod_bound)
  have c2: "c < 2 ^ 32" using c1 assms(4) by simp
  have "page_aligned pageSize offset = c * 2 ^ 32"
    using off swapped_offset_parts [OF c0 c2] by simp
  then have sum: "offset = c * 2 ^ 32 + c" using start by simp
  show False
  proof (cases "c = 0")
    case True
    with sum assms(1) show False by simp
  next
    case False
    with c0 have "1 \<le> c" by simp
    then have "2 ^ 32 + 1 \<le> c * 2 ^ 32 + c" by simp
    with sum assms(2) show False by simp
  qed
qed

lemma mapped_view_claimed_beyond:
  "mapped_view (example_win_api 1) 3 MEM_READWRITE (2 ^ 32 + 1) 16
     = Some (claimed_view 4096 (2 ^ 32 + 1) 16)"
  by (simp add: mapped_view_def newMemoryRegionImpl_def example_win_api_def Let_def
      memProtAndFlagsFromMode_def byteSliceFromUintptr_def memoryRegionImpl_Data_def
      claimed_view_def page_aligned_def)

text \<open>
  Claim C5 at the offset 5000 with 16 bytes requested and pages of 4096 bytes. The claim
  asks for a view that starts at file offset 4096, maps 920 bytes, and a slice that starts
  904 bytes past the base. The code passes one number, the result of
  \<open>calcValidOffset\<close>, both as the file offset of the view and as the count of bytes to
  skip, and hands its low half to \<open>MapViewOfFile\<close> where the high half belongs. So
  whatever that function answers, the view is not the claimed one: with the aligned offset
  4096 the call asks for 4112 bytes at file offset \<open>4096 * 2 ^ 32\<close> and the slice
  starts 4096 bytes past the base; with the remainder 904 the call asks for the view at
  file offset \<open>904 * 2 ^ 32\<close>.
\<close>

theorem newMemoryRegionImpl_offset_5000:
  "mapped_view (example_win_api c) 3 MEM_READWRITE 5000 16 \<noteq> Some (claimed_view 4096 5000 16)
   \<and> claimed_view 4096 5000 16 =
       \<lparr>v_file_offset = 4096, v_bytes = 920, v_data_start = 904, v_data_len = 16\<rparr>
   \<and> snd (newMemoryRegionImpl (example_win_api 4096) 3 MEM_READWRITE 5000 16) =
       [Call_CreateFileMapping 3 PAGE_READWRITE,
        Call_MapViewOfFile 7 FILE_MAP_WRITE 4096 0 4112, Call_CloseHandle 7]
   \<and> mapped_view (example_win_api 4096) 3 MEM_READWRITE 5000 16 =
       Some \<lparr>v_file_offset = 4096 * 2 ^ 32, v_bytes = 4112, v_data_start = 4096,
             v_data_len = 16\<rparr>
   \<and> snd (newMemoryRegionImpl (example_win_api 904) 3 MEM_READWRITE 5000 16) =
       [Call_CreateFileMapping 3 PAGE_READWRITE,
        Call_MapViewOfFile 7 FILE_MAP_WRITE 904 0 920, Call_CloseHandle 7]
   \<and> mapped_view (example_win_api 904) 3 MEM_READWRITE 5000 16 =
       Some \<lparr>v_file_offset = 904 * 2 ^ 32, v_bytes = 920, v_data_start = 904,
             v_data_len = 16\<rparr>"
proof -
  have "mapped_view (example_win_api c) 3 MEM_READWRITE 5000 16 \<noteq> Some (claimed_view 4096 5000 16)"
    by (rule mapped_view_never_claimed) simp_all
  moreover have "claimed_view 4096 5000 16 =
       \<lparr>v_file_offset = 4096, v_bytes = 920, v_data_start = 904, v_data_len = 16\<rparr>"
    by (simp add: claimed_view_def page_aligned_def)
  moreover have a: "newMemoryRegionImpl (example_win_api 4096) 3 MEM_READWRITE 5000 16 =
       (Inr \<lparr>mr_data = \<lparr>bs_base = 65536, bs_len = 4112, bs_cap = 4112\<rparr>, mr_size = 16,
              mr_pageOffset = 4096\<rparr>,
        [Call_CreateFileMapping 3 PAGE_READWRITE,
         Call_MapViewOfFile 7 FILE_MAP_WRITE 4096 0 4112, Call_CloseHandle 7])"
    by (simp add: newMemoryRegionImpl_def example_win_api_def Let_def
        memProtAndFlagsFromMode_def byteSliceFromUintptr_def)
  moreover have "mapped_view (example_win_api 4096) 3 MEM_READWRITE 5000 16 =
       Some \<lparr>v_file_offset = 4096 * 2 ^ 32, v_bytes = 4112, v_data_start = 4096,
             v_data_len = 16\<rparr>"
    unfolding mapped_view_def a by (simp add: memoryRegionImpl_Data_def)
  moreover have b: "newMemoryRegionImpl (example_win_api 904) 3 MEM_READWRITE 5000 16 =
       (Inr \<lparr>mr_data = \<lparr>bs_base = 65536, bs_len = 920, bs_cap = 920\<rparr>, mr_size = 16,
              mr_pageOffset = 904\<rparr>,
        [Call_CreateFileMapping 3 PAGE_READWRITE,
         Call_MapViewOfFile 7 FILE_MAP_WRITE 904 0 920, Call_CloseHandle 7])"
    by (simp add: newMemoryRegionImpl_def example_win_api_def Let_def
        memProtAndFlagsFromMode_def byteSliceFromUintptr_def)
  moreover have "mapped_view (example_win_api 904) 3 MEM_READWRITE 5000 16 =
       Some \<lparr>v_file_offset = 904 * 2 ^ 32, v_bytes = 920, v_data_start = 904,
             v_data_len = 16\<rparr>"
    unfolding mapped_view_def b by (simp add: memoryRegionImpl_Data_def)
  ultimately show ?thesis by simp
qed

subsection \<open>Opening a Windows mutex that exists\<close>

text \<open>
  Claim C6, as the code has it. \<open>newMutexImpl\<close> of package \<open>ipc\<close>, called with
  \<open>O_OPEN_ONLY\<close>, makes no call to the system and returns a \<open>mutexImpl\<close> whose
  handle is the zero value, with no error. \<open>newMutexImpl\<close> of package \<open>sync\<close>
  calls \<open>openMutex\<close> with the name and returns its error, or else a \<open>mutexImpl\<close>
  with the handle it opened.
\<close>

theorem windows_open_only:
  "ipc_newMutexImpl api name O_OPEN_ONLY perm = (Inr \<lparr>mi_handle = 0\<rparr>, [])
   \<and> sync_newMutexImpl api name O_OPEN_ONLY perm =
       (case openMutex api name of
          (h, Some err) \<Rightarrow> (Inl err, [Call_openMutex name])
        | (h, None) \<Rightarrow> (Inr \<lparr>mi_handle = h\<rparr>, [Call_openMutex name]))"
  by (simp add: ipc_newMutexImpl_def sync_newMutexImpl_def split: prod.splits option.splits)

text \<open>
  The claim as it is written fails for the implementation of package \<open>sync\<close>: on a
  system without a mutex of the name it calls \<open>openMutex\<close> and reports that the
  mutex does not exist.
\<close>

theorem windows_open_only_counterexample:
  "sync_newMutexImpl example_mutex_api ''m'' O_OPEN_ONLY 420 = (Inl ENOENT, [Call_openMutex ''m''])"
  by (simp add: sync_newMutexImpl_def example_mutex_api_def)

subsection \<open>Destroying a name that is absent\<close>

lemma sharedDirName_result:
  "sharedDirName sys s =
     (case Mkdir sys s (TempDir sys @ ''/go-ipc'') perm_0644 of
        (err, s') \<Rightarrow>
          if err = None \<or> os_IsExist err then ((TempDir sys @ ''/go-ipc'', None), s')
          else (('''', err), s'))"
  by (auto simp: sharedDirName_def Let_def split: prod.splits)

lemma shmName_result:
  "shmName sys s name =
     (case Mkdir sys s (TempDir sys @ ''/go-ipc'') perm_0644 of
        (err, s') \<Rightarrow>
          if err = None \<or> os_IsExist err
          then ((TempDir sys @ ''/go-ipc'' @ ''/'' @ name, None), s')
          else (('''', err), s'))"
  by (auto simp: shmName_def sharedDirName_result split: prod.splits)

lemma destroyMemoryObject_result:
  "destroyMemoryObject sys s name =
     (case Mkdir sys s (TempDir sys @ ''/go-ipc'') perm_0644 of
        (err, s') \<Rightarrow>
          if err = None \<or> os_IsExist err
          then (case Remove sys s' (TempDir sys @ ''/go-ipc'' @ ''/'' @ name) of
                  (err', s'') \<Rightarrow> if os_IsNotExist err' then (None, s'') else (err', s''))
          else (err, s'))"
  by (auto simp: destroyMemoryObject_def shmName_result split: prod.splits)

text \<open>
  Claim C7, as the code has it, for every system. When \<open>os.Mkdir\<close> of the shared
  directory returns \<open>nil\<close> or an error that \<open>os.IsExist\<close> accepts, and
  \<open>os.Remove\<close> of the object's path then returns an error that \<open>os.IsNotExist\<close>
  accepts, \<open>destroyMemoryObject\<close> returns \<open>nil\<close>: the not-exist error of the
  removal is turned into success. Every other answer of \<open>os.Remove\<close> is returned as
  it is, and an error of \<open>os.Mkdir\<close> that \<open>os.IsExist\<close> does not accept is
  returned before any removal. \<open>DestroyFifo\<close> returns \<open>nil\<close> when
  \<open>os.Remove\<close> of the fifo's path returns an error that \<open>os.IsNotExist\<close>
  accepts, and returns every other answer of \<open>os.Remove\<close> as it is.
\<close>

theorem destroy_result:
  "((fst (Mkdir sys s (TempDir sys @ ''/go-ipc'') perm_0644) = None \<or>
     os_IsExist (fst (Mkdir sys s (TempDir sys @ ''/go-ipc'') perm_0644))) \<and>
    os_IsNotExist (fst (Remove sys (snd (Mkdir sys s (TempDir sys @ ''/go-ipc'') perm_0644))
           (TempDir sys @ ''/go-ipc'' @ ''/'' @ name)))
      \<longrightarrow> fst (destroyMemoryObject sys s name) = None)
   \<and> ((fst (Mkdir sys s (TempDir sys @ ''/go-ipc'') perm_0644) = None \<or>
        os_IsExist (fst (Mkdir sys s (TempDir sys @ ''/go-ipc'') perm_0644))) \<and>
       \<not> os_IsNotExist (fst (Remove sys (snd (Mkdir sys s (TempDir sys @ ''/go-ipc'') perm_0644))
           (TempDir sys @ ''/go-ipc'' @ ''/'' @ name)))
      \<longrightarrow> destroyMemoryObject sys s name =
            Remove sys (snd (Mkdir sys s (TempDir sys @ ''/go-ipc'') perm_0644))
              (TempDir sys @ ''/go-ipc'' @ ''/'' @ name))
   \<and> (fst (Mkdir sys s (TempDir sys @ ''/go-ipc'') perm_0644) \<noteq> None \<and>
       \<not> os_IsExist (fst (Mkdir sys s (TempDir sys @ ''/go-ipc'') perm_0644))
      \<longrightarrow> destroyMemoryObject sys s name =
            Mkdir sys s (TempDir sys @ ''/go-ipc'') perm_0644)
   \<and> (os_IsNotExist (fst (Remove sys s (fifoPath name)))
      \<longrightarrow> DestroyFifo sys s name = (None, snd (Remove sys s (fifoPath name))))
   \<and> (\<not> os_IsNotExist (fst (Remove sys s (fifoPath name)))
      \<longrightarrow> DestroyFifo sys s name = Remove sys s (fifoPath name))"
  by (auto simp: destroyMemoryObject_result DestroyFifo_def split: prod.splits)

text \<open>
  The theorem on a system that holds nothing yet, where both functions return
  \<open>nil\<close>, and for a fifo path under a regular file, where the error is returned.
\<close>

theorem destroy_result_witness:
  "fst (Mkdir tmp_fresh [] (TempDir tmp_fresh @ ''/go-ipc'') perm_0644) = None
   \<and> os_IsNotExist (fst (Remove tmp_fresh
           (snd (Mkdir tmp_fresh [] (TempDir tmp_fresh @ ''/go-ipc'') perm_0644))
           (TempDir tmp_fresh @ ''/go-ipc'' @ ''/'' @ ''m'')))
   \<and> fst (destroyMemoryObject tmp_fresh [] ''m'') = None
   \<and> os_IsNotExist (fst (Remove tmp_fresh [] (fifoPath ''m'')))
   \<and> fst (DestroyFifo tmp_fresh [] ''m'') = None
   \<and> Remove tmp_locked () (fifoPath ''/tmp/notes.txt/fifo'') = (Some ENOTDIR, ())
   \<and> DestroyFifo tmp_locked () ''/tmp/notes.txt/fifo'' = (Some ENOTDIR, ())"
proof -
  have mk: "fst (Mkdir tmp_fresh [] (TempDir tmp_fresh @ ''/go-ipc'') perm_0644) = None"
    by (simp add: tmp_fresh_def)
  have rm: "os_IsNotExist (fst (Remove tmp_fresh
           (snd (Mkdir tmp_fresh [] (TempDir tmp_fresh @ ''/go-ipc'') perm_0644))
           (TempDir tmp_fresh @ ''/go-ipc'' @ ''/'' @ ''m'')))"
    by (simp add: tmp_fresh_def os_IsNotExist_def)
  have ff: "os_IsNotExist (fst (Remove tmp_fresh [] (fifoPath ''m'')))"
    by (simp add: tmp_fresh_def os_IsNotExist_def)
  have fl: "Remove tmp_locked () (fifoPath ''/tmp/notes.txt/fifo'') = (Some ENOTDIR, ())"
    by (simp add: tmp_locked_def fifoPath_def)
  have ne: "\<not> os_IsNotExist (fst (Remove tmp_locked () (fifoPath ''/tmp/notes.txt/fifo'')))"
    by (simp add: fl os_IsNotExist_def)
  note fresh = destroy_result [of tmp_fresh "[]" "''m''"]
  note locked = destroy_result [of tmp_locked "()" "''/tmp/notes.txt/fifo''"]
  have "fst (destroyMemoryObject tmp_fresh [] ''m'') = None" using fresh mk rm by blast
  moreover have "DestroyFifo tmp_fresh [] ''m'' = (None, snd (Remove tmp_fresh [] (fifoPath ''m'')))"
    using fresh ff by blast
  then have "fst (DestroyFifo tmp_fresh [] ''m'') = None" by simp
  moreover have "DestroyFifo tmp_locked () ''/tmp/notes.txt/fifo''
                   = Remove tmp_locked () (fifoPath ''/tmp/notes.txt/fifo'')"
    using locked ne by blast
  then have "DestroyFifo tmp_locked () ''/tmp/notes.txt/fifo'' = (Some ENOTDIR, ())"
    by (simp add: fl)
  ultimately show ?thesis using mk rm ff fl by blast
qed

text \<open>
  The claim as it is written fails in two places. Where the shared directory cannot be
  created, the backing file is absent and \<open>destroyMemoryObject\<close> returns the error of
  \<open>os.Mkdir\<close>. Where a fifo path lies under a regular file, the path is missing
  and \<open>DestroyFifo\<close> returns the error of \<open>os.Remove\<close>, which is not a
  not-exist error.
\<close>

theorem destroy_absent_counterexample:
  "Remove tmp_locked () (TempDir tmp_locked @ ''/go-ipc'' @ ''/'' @ ''m'') = (Some ENOENT, ())
   \<and> destroyMemoryObject tmp_locked () ''m'' = (Some EACCES, ())
   \<and> Remove tmp_locked () (fifoPath ''/tmp/notes.txt/fifo'') = (Some ENOTDIR, ())
   \<and> DestroyFifo tmp_locked () ''/tmp/notes.txt/fifo'' = (Some ENOTDIR, ())"
  by (simp add: tmp_locked_def destroyMemoryObject_result DestroyFifo_def os_IsNotExist_def
      os_IsExist_def fifoPath_def)

subsection \<open>Where the file-backed objects are stored\<close>

text \<open>
  Claim C8, as the code has it, for every system. \<open>shmName\<close> returns the temporary
  directory followed by \<open>/go-ipc\<close>, \<open>/\<close> and the name, with no error, exactly
  when \<open>os.Mkdir\<close> of the temporary directory followed by \<open>/go-ipc\<close>, with the
  permission bits \<open>0644\<close> (420), returns \<open>nil\<close> or an error that
  \<open>os.IsExist\<close> accepts; for every other error of \<open>os.Mkdir\<close>,
  \<open>sharedDirName\<close> and \<open>shmName\<close> return the empty path and that error. That
  one call of \<open>os.Mkdir\<close> is all the two functions do to the system.
\<close>

theorem shmName_path:
  "((fst (Mkdir sys s (TempDir sys @ ''/go-ipc'') perm_0644) = None \<or>
     os_IsExist (fst (Mkdir sys s (TempDir sys @ ''/go-ipc'') perm_0644)))
      \<longrightarrow> shmName sys s name =
             ((TempDir sys @ ''/go-ipc'' @ ''/'' @ name, None),
              snd (Mkdir sys s (TempDir sys @ ''/go-ipc'') perm_0644))
          \<and> sharedDirName sys s =
             ((TempDir sys @ ''/go-ipc'', None),
              snd (Mkdir sys s (TempDir sys @ ''/go-ipc'') perm_0644)))
   \<and> (fst (Mkdir sys s (TempDir sys @ ''/go-ipc'') perm_0644) \<noteq> None \<and>
       \<not> os_IsExist (fst (Mkdir sys s (TempDir sys @ ''/go-ipc'') perm_0644))
      \<longrightarrow> shmName sys s name =
             (('''', fst (Mkdir sys s (TempDir sys @ ''/go-ipc'') perm_0644)),
              snd (Mkdir sys s (TempDir sys @ ''/go-ipc'') perm_0644))
          \<and> sharedDirName sys s =
             (('''', fst (Mkdir sys s (TempDir sys @ ''/go-ipc'') perm_0644)),
              snd (Mkdir sys s (TempDir sys @ ''/go-ipc'') perm_0644)))
   \<and> (snd (fst (shmName sys s name)) = None) =
       (fst (Mkdir sys s (TempDir sys @ ''/go-ipc'') perm_0644) = None \<or>
        os_IsExist (fst (Mkdir sys s (TempDir sys @ ''/go-ipc'') perm_0644)))
   \<and> snd (sharedDirName sys s) = snd (Mkdir sys s (TempDir sys @ ''/go-ipc'') perm_0644)
   \<and> snd (shmName sys s name) = snd (Mkdir sys s (TempDir sys @ ''/go-ipc'') perm_0644)
   \<and> perm_0644 = 420"
  by (auto simp: shmName_result sharedDirName_result perm_0644_def split: prod.splits)

text \<open>
  The theorem on a system that holds nothing yet, where the directory is made with the
  bits 420 and the path is returned, and on a system that refuses to make it.
\<close>

theorem shmName_path_witness:
  "fst (Mkdir tmp_fresh [] (TempDir tmp_fresh @ ''/go-ipc'') perm_0644) = None
   \<and> shmName tmp_fresh [] ''m'' = ((''/tmp/go-ipc/m'', None), [(''/tmp/go-ipc'', 420)])
   \<and> sharedDirName tmp_fresh [] = ((''/tmp/go-ipc'', None), [(''/tmp/go-ipc'', 420)])
   \<and> Mkdir tmp_locked () (TempDir tmp_locked @ ''/go-ipc'') perm_0644 = (Some EACCES, ())
   \<and> shmName tmp_locked () ''m'' = (('''', Some EACCES), ())"
proof -
  have mk: "fst (Mkdir tmp_fresh [] (TempDir tmp_fresh @ ''/go-ipc'') perm_0644) = None"
    by (simp add: tmp_fresh_def)
  have st': "snd (Mkdir tmp_fresh [] ''/tmp/go-ipc'' perm_0644) = [(''/tmp/go-ipc'', 420)]"
    by (simp add: tmp_fresh_def perm_0644_def)
  have td: "TempDir tmp_fresh = ''/tmp''" by (simp add: tmp_fresh_def)
  have ml: "Mkdir tmp_locked () (TempDir tmp_locked @ ''/go-ipc'') perm_0644 = (Some EACCES, ())"
    by (simp add: tmp_locked_def)
  have ne: "fst (Mkdir tmp_locked () (TempDir tmp_locked @ ''/go-ipc'') perm_0644) \<noteq> None"
    "\<not> os_IsExist (fst (Mkdir tmp_locked () (TempDir tmp_locked @ ''/go-ipc'') perm_0644))"
    by (simp_all add: ml os_IsExist_def)
  note fresh = shmName_path [of tmp_fresh "[]" "''m''"]
  note locked = shmName_path [of tmp_locked "()" "''m''"]
  have "shmName tmp_fresh [] ''m''
          = ((TempDir tmp_fresh @ ''/go-ipc'' @ ''/'' @ ''m'', None),
             snd (Mkdir tmp_fresh [] (TempDir tmp_fresh @ ''/go-ipc'') perm_0644))"
    using fresh mk by blast
  then have a: "shmName tmp_fresh [] ''m'' = ((''/tmp/go-ipc/m'', None), [(''/tmp/go-ipc'', 420)])"
    by (simp add: st' td)
  have "sharedDirName tmp_fresh []
          = ((TempDir tmp_fresh @ ''/go-ipc'', None),
             snd (Mkdir tmp_fresh [] (TempDir tmp_fresh @ ''/go-ipc'') perm_0644))"
    using fresh mk by blast
  then have b: "sharedDirName tmp_fresh [] = ((''/tmp/go-ipc'', None), [(''/tmp/go-ipc'', 420)])"
    by (simp add: st' td)
  have "shmName tmp_locked () ''m''
          = (('''', fst (Mkdir tmp_locked () (TempDir tmp_locked @ ''/go-ipc'') perm_0644)),
             snd (Mkdir tmp_locked () (TempDir tmp_locked @ ''/go-ipc'') perm_0644))"
    using locked ne by blast
  then have c: "shmName tmp_locked () ''m'' = (('''', Some EACCES), ())" by (simp add: ml)
  show ?thesis using mk a b ml c by blast
qed

text \<open>
  The claim as it is written fails where \<open>os.Mkdir\<close> is refused: \<open>shmName\<close>
  returns the error and the empty path instead of the path.
\<close>

theorem shmName_path_counterexample:
  "shmName tmp_locked () ''m'' = (('''', Some EACCES), ())
   \<and> fst (fst (shmName tmp_locked () ''m'')) \<noteq> TempDir tmp_locked @ ''/go-ipc'' @ ''/'' @ ''m''"
  by (simp add: tmp_locked_def shmName_result os_IsExist_def)

subsection \<open>Copying a plain object\<close>

text \<open>
  \<open>checkType\<close> at depth 0 accepts exactly the types that are free of references in
  the claim's sense, and no error return of \<open>Alloc\<close> changes the memory.
\<close>

lemma checkNumericType_plain_leaf: "(checkNumericType k = None) = plain_leaf k"
  by (cases k) (simp_all add: checkNumericType_def plain_leaf_def)

lemma checkType_plain:
  "(0 < depth \<longrightarrow> (checkType t depth = None) = plain t)"
  "(checkFields fs depth = None) = plain_fields fs"
  by (induction t depth and fs depth rule: checkType_checkFields.induct)
     (auto simp: checkNumericType_plain_leaf split: option.splits)

lemma checkType_top: "(checkType t 0 = None) = reference_free t"
  using checkType_plain(1)[of 1] checkType_plain(2)[of _ 0]
  by (cases t) (auto simp: checkNumericType_plain_leaf)

lemma Alloc_error_keeps_memory:
  "Alloc tsize mem memory object = Returned (Some err, memory') \<Longrightarrow> memory' = memory"
  by (auto simp: Alloc_def Let_def split: if_splits option.splits outcome.splits)

lemma read_x: "n = 8 \<Longrightarrow> read_bytes example_memory 4096 n = Some [1, 2, 3, 4, 5, 6, 7, 8]"
  by (simp add: read_bytes_def example_memory_def upt_rec)

lemma read_x6: "n = 6 \<Longrightarrow> read_bytes example_memory 4096 n = Some [1, 2, 3, 4, 5, 6]"
  by (simp add: read_bytes_def example_memory_def upt_rec)

lemma read_nil: "n = 8 \<Longrightarrow> read_bytes example_memory 0 n = None"
  by (simp add: read_bytes_def example_memory_def upt_rec)

lemma read_header: "read_word example_memory 8192 = Some 4096"
  by (simp add: read_word_def read_bytes_def example_memory_def upt_rec word_of_bytes_def)

text \<open>
  Claim C9 at an \<open>unsafe.Pointer\<close>, which \<open>checkType\<close> accepts, which is free
  of references in the claim's sense, and whose 8 bytes fit the memory of 8 bytes. For
  the pointer to \<open>x\<close> at address 4096, \<open>Alloc\<close> returns \<open>nil\<close> with the bytes
  of \<open>x\<close> in the memory, not with the bytes of the pointer, which are its own
  representation. For the nil pointer \<open>Alloc\<close> does not return: the copy reads at
  address 0. A slice of three \<open>uint16\<close> is copied as the claim says.
\<close>

theorem Alloc_unsafe_pointer:
  "checkType (Scalar UnsafePointer) 0 = None
   \<and> reference_free (Scalar UnsafePointer)
   \<and> objectSize example_tsize (DataValue (Scalar UnsafePointer) 0 4096) = Some 8
   \<and> Alloc example_tsize example_memory [0, 0, 0, 0, 0, 0, 0, 0]
        (DataValue (Scalar UnsafePointer) 0 4096)
       = Returned (None, [1, 2, 3, 4, 5, 6, 7, 8])
   \<and> own_bytes example_tsize example_memory (DataValue (Scalar UnsafePointer) 0 4096)
       = Some [0, 16, 0, 0, 0, 0, 0, 0]
   \<and> Alloc example_tsize example_memory [0, 0, 0, 0, 0, 0, 0, 0]
        (DataValue (Scalar UnsafePointer) 0 0)
       = Panicked
   \<and> own_bytes example_tsize example_memory (DataValue (Scalar UnsafePointer) 0 0)
       = Some [0, 0, 0, 0, 0, 0, 0, 0]
   \<and> Alloc example_tsize example_memory [0, 0, 0, 0, 0, 0, 0, 0]
        (DataValue (SliceOf (Scalar Uint16)) 3 8192)
       = Returned (None, [1, 2, 3, 4, 5, 6, 0, 0])
   \<and> own_bytes example_tsize example_memory (DataValue (SliceOf (Scalar Uint16)) 3 8192)
       = Some [1, 2, 3, 4, 5, 6]"
proof -
  have ck: "checkType (Scalar UnsafePointer) 0 = None"
    by (simp add: checkNumericType_def)
  have cn: "checkNumericType UnsafePointer = None" "checkNumericType Uint16 = None"
    by (simp_all add: checkNumericType_def)
  have rf: "reference_free (Scalar UnsafePointer)"
    by (simp add: plain_leaf_def)
  have sz: "objectSize example_tsize (DataValue (Scalar UnsafePointer) 0 4096) = Some 8"
    by (simp add: example_tsize_def)
  have a1: "Alloc example_tsize example_memory [0, 0, 0, 0, 0, 0, 0, 0]
        (DataValue (Scalar UnsafePointer) 0 4096)
       = Returned (None, [1, 2, 3, 4, 5, 6, 7, 8])"
    by (simp add: Alloc_def Let_def example_tsize_def maxObjectSize_def cn
        copyObjectData_def read_x)
  have o1: "own_bytes example_tsize example_memory (DataValue (Scalar UnsafePointer) 0 4096)
       = Some [0, 16, 0, 0, 0, 0, 0, 0]"
    by (simp add: example_tsize_def bytes_of_word_def upt_rec)
  have a2: "Alloc example_tsize example_memory [0, 0, 0, 0, 0, 0, 0, 0]
        (DataValue (Scalar UnsafePointer) 0 0)
       = Panicked"
    by (simp add: Alloc_def Let_def example_tsize_def maxObjectSize_def cn
        copyObjectData_def read_nil)
  have o2: "own_bytes example_tsize example_memory (DataValue (Scalar UnsafePointer) 0 0)
       = Some [0, 0, 0, 0, 0, 0, 0, 0]"
    by (simp add: example_tsize_def bytes_of_word_def upt_rec)
  have cs: "checkType (SliceOf (Scalar Uint16)) 0 = None"
    by (simp add: checkNumericType_def)
  have a3: "Alloc example_tsize example_memory [0, 0, 0, 0, 0, 0, 0, 0]
        (DataValue (SliceOf (Scalar Uint16)) 3 8192)
       = Returned (None, [1, 2, 3, 4, 5, 6, 0, 0])"
    by (simp add: Alloc_def Let_def example_tsize_def maxObjectSize_def cn
        copyObjectData_def read_header read_x6)
  have o3: "own_bytes example_tsize example_memory (DataValue (SliceOf (Scalar Uint16)) 3 8192)
       = Some [1, 2, 3, 4, 5, 6]"
    by (simp add: example_tsize_def read_header read_x6)
  show ?thesis using ck rf sz a1 o1 a2 o2 a3 o3 by blast
qed

subsection \<open>The size of a memory object\<close>

text \<open>
  Claim C10. \<open>Size\<close> returns a number and no error: 0 when the file cannot be
  stat-ed, the size the file's information gives otherwise. An object whose stat fails
  and an object whose file is empty give the same result.
\<close>

theorem Size_hides_stat_failure:
  "(Stat (mo_file obj) = Inl e \<longrightarrow> memoryObject_Size obj = 0)
   \<and> (Stat (mo_file obj) = Inr fi \<longrightarrow> memoryObject_Size obj = fi_size fi)
   \<and> (Stat (mo_file a) = Inl e' \<and> Stat (mo_file b) = Inr fi' \<and> fi_size fi' = 0 \<longrightarrow>
        memoryObject_Size a = memoryObject_Size b)"
  by (simp add: memoryObject_Size_def)

text \<open>The theorem at a handle whose stat fails, at a file of 64 bytes and at an empty file.\<close>

theorem Size_hides_stat_failure_witness:
  "memoryObject_Size \<lparr>mo_file = \<lparr>file_name = ''/tmp/go-ipc/m'', Stat = Inl EACCES\<rparr>\<rparr> = 0
   \<and> memoryObject_Size \<lparr>mo_file = \<lparr>file_name = ''/tmp/go-ipc/m'',
          Stat = Inr \<lparr>fi_name = ''m'', fi_size = 64\<rparr>\<rparr>\<rparr> = 64
   \<and> memoryObject_Size \<lparr>mo_file = \<lparr>file_name = ''/tmp/go-ipc/m'', Stat = Inl EACCES\<rparr>\<rparr> =
     memoryObject_Size \<lparr>mo_file = \<lparr>file_name = ''/tmp/go-ipc/e'',
          Stat = Inr \<lparr>fi_name = ''e'', fi_size = 0\<rparr>\<rparr>\<rparr>"
  using Size_hides_stat_failure [of "\<lparr>mo_file = \<lparr>file_name = ''/tmp/go-ipc/m'', Stat = Inl EACCES\<rparr>\<rparr>"
      EACCES "\<lparr>fi_name = ''m'', fi_size = 64\<rparr>"
      "\<lparr>mo_file = \<lparr>file_name = ''/tmp/go-ipc/m'', Stat = Inl EACCES\<rparr>\<rparr>"
      EACCES
      "\<lparr>mo_file = \<lparr>file_name = ''/tmp/go-ipc/e'', Stat = Inr \<lparr>fi_name = ''e'', fi_size = 0\<rparr>\<rparr>\<rparr>"
      "\<lparr>fi_name = ''e'', fi_size = 0\<rparr>"]
    Size_hides_stat_failure [of "\<lparr>mo_file = \<lparr>file_name = ''/tmp/go-ipc/m'',
          Stat = Inr \<lparr>fi_name = ''m'', fi_size = 64\<rparr>\<rparr>\<rparr>" EACCES "\<lparr>fi_name = ''m'', fi_size = 64\<rparr>"]
  by simp

end
